theory Spec2Isabelle
  imports Complex_Main
begin

section \<open>Data model (lib/types.ts)\<close>

text \<open>
  The TypeScript interfaces become records.  A JavaScript \<open>number\<close> that is only added
  and counted is modelled as a \<^typ>\<open>real\<close> (the number that the form validation
  compares with zero has NaN and the infinities, see there), a JavaScript string as a
  \<^typ>\<open>string\<close> of ASCII
  characters, an optional property \<open>p?: T\<close> as a \<^typ>\<open>'a option\<close> (\<open>None\<close> is
  \<open>undefined\<close>).  A \<open>Date\<close> is identified with its ISO-8601 rendering, the string that
  \<open>JSON.stringify\<close> writes for it and from which \<open>new Date(...)\<close> rebuilds it.
  The fields \<open>id\<close> and \<open>name\<close>, which both interfaces have, carry a prefix.
\<close>

datatype TaskStatus = Backlog | Assigned | Completed

datatype date = Date (toISOString: string)

record TaskCompletionDetails =
  hoursSpent :: real
  gitCommit :: string
  comments :: string

record Task =
  task_id :: string
  task_name :: string
  description :: string
  points :: real
  status :: TaskStatus
  assignedTo :: "string option"
  createdAt :: date
  completedAt :: "date option"
  completionDetails :: "TaskCompletionDetails option"

record Developer =
  dev_id :: string
  dev_name :: string
  totalPoints :: real
  completedTasks :: real
  totalHours :: real

record AppState =
  tasks :: "Task list"
  developers :: "Developer list"

text \<open>
  \<open>Partial<Task>\<close>, the patch of \<open>updateTask\<close>: every property may be missing
  (\<open>None\<close>).  For the optional properties of \<open>Task\<close> a patch can also carry the property
  with the value \<open>undefined\<close> (\<open>Some None\<close>), which the object spread copies.
\<close>

record TaskPatch =
  p_id :: "string option"
  p_name :: "string option"
  p_description :: "string option"
  p_points :: "real option"
  p_status :: "TaskStatus option"
  p_assignedTo :: "string option option"
  p_createdAt :: "date option"
  p_completedAt :: "date option option"
  p_completionDetails :: "TaskCompletionDetails option option"

section \<open>JavaScript string primitives\<close>

definition toLowerCase_char :: "char \<Rightarrow> char" where
  "toLowerCase_char c =
     (let n = (of_char c :: nat) in if 65 \<le> n \<and> n \<le> 90 then char_of (n + 32) else c)"

definition toUpperCase_char :: "char \<Rightarrow> char" where
  "toUpperCase_char c =
     (let n = (of_char c :: nat) in if 97 \<le> n \<and> n \<le> 122 then char_of (n - 32) else c)"

definition toLowerCase :: "string \<Rightarrow> string" where
  "toLowerCase s = map toLowerCase_char s"

definition toUpperCase :: "string \<Rightarrow> string" where
  "toUpperCase s = map toUpperCase_char s"

text \<open>\<open>String.prototype.trim\<close>: white space at both ends is dropped.\<close>

definition is_whitespace :: "char \<Rightarrow> bool" where
  "is_whitespace c = ((of_char c :: nat) \<in> {9, 10, 11, 12, 13, 32})"

definition trim :: "string \<Rightarrow> string" where
  "trim s = rev (dropWhile is_whitespace (rev (dropWhile is_whitespace s)))"

text \<open>The decimal rendering of a non-negative integer, as a template literal writes it.\<close>

definition digit_char :: "nat \<Rightarrow> char" where
  "digit_char d = char_of (48 + d)"

fun string_of_nat :: "nat \<Rightarrow> string" where
  "string_of_nat n =
     (if n < 10 then [digit_char n] else string_of_nat (n div 10) @ [digit_char (n mod 10)])"

declare string_of_nat.simps [simp del]

text \<open>\<open>s.split('-')[0]\<close>: the part of \<open>s\<close> before its first hyphen.\<close>

definition split_first :: "string \<Rightarrow> string" where
  "split_first s = takeWhile (\<lambda>c. c \<noteq> CHR ''-'') s"

text \<open>
  \<open>new Set(xs)\<close> iterated with \<open>forEach\<close>: the distinct elements of \<open>xs\<close>, each at the
  place of its first occurrence.
\<close>

definition Set_of :: "'a list \<Rightarrow> 'a list" where
  "Set_of xs = foldl (\<lambda>acc x. if x \<in> set acc then acc else acc @ [x]) [] xs"

section \<open>Developer statistics (lib/utils.ts)\<close>

record DeveloperStats =
  s_totalPoints :: real
  s_completedTasks :: real
  s_totalHours :: real

definition calculateDeveloperStats :: "Task list \<Rightarrow> string \<Rightarrow> DeveloperStats" where
  "calculateDeveloperStats ts developerId =
     (let developerTasks =
            filter (\<lambda>task. assignedTo task = Some developerId \<and> status task = Completed) ts
      in \<lparr> s_totalPoints = foldl (\<lambda>sum task. sum + points task) 0 developerTasks,
           s_completedTasks = real (length developerTasks),
           s_totalHours =
             foldl (\<lambda>sum task. sum +
                      (case completionDetails task of
                         None \<Rightarrow> 0
                       | Some d \<Rightarrow> if hoursSpent d = 0 then 0 else hoursSpent d))
                   0 developerTasks \<rparr>)"

section \<open>The state reconciler (lib/hooks/useTaskStorage.ts)\<close>

subsection \<open>Default developer names\<close>

definition name_taken :: "string list \<Rightarrow> string \<Rightarrow> bool" where
  "name_taken existingNames pattern =
     list_ex (\<lambda>name. toLowerCase name = toLowerCase pattern) existingNames"

definition numbered_name :: "string \<Rightarrow> nat \<Rightarrow> string" where
  "numbered_name baseName2 counter = baseName2 @ '' '' @ string_of_nat counter"

text \<open>
  The \<open>while\<close> loop of \<open>generateDefaultDeveloperName\<close> counts upwards until the
  numbered name is free.  It terminates because distinct counters give names that differ
  also after lower-casing, and only finitely many names exist; the lemmas below establish
  this for the termination proof of \<open>next_free_counter\<close>.
\<close>

definition digit_val :: "char \<Rightarrow> nat" where
  "digit_val c = of_char c - 48"

definition nat_of_string :: "string \<Rightarrow> nat" where
  "nat_of_string s = foldl (\<lambda>a c. 10 * a + digit_val c) 0 s"

lemma digit_val_digit_char: "d < 10 \<Longrightarrow> digit_val (digit_char d) = d"
  by (simp add: digit_val_def digit_char_def)

lemma nat_of_string_snoc: "nat_of_string (s @ [c]) = 10 * nat_of_string s + digit_val c"
  by (simp add: nat_of_string_def)

lemma nat_of_string_of_nat: "nat_of_string (string_of_nat n) = n"
proof (induction n rule: string_of_nat.induct)
  case (1 n)
  show ?case
  proof (cases "n < 10")
    case True
    then show ?thesis
      by (simp add: string_of_nat.simps [of n] nat_of_string_def digit_val_digit_char)
  next
    case False
    with 1 show ?thesis
      by (simp add: string_of_nat.simps [of n] nat_of_string_snoc digit_val_digit_char)
  qed
qed

lemma string_of_nat_inj: "string_of_nat m = string_of_nat n \<Longrightarrow> m = n"
  by (metis nat_of_string_of_nat)

lemma toLowerCase_digit: "d < 10 \<Longrightarrow> toLowerCase_char (digit_char d) = digit_char d"
  by (simp add: toLowerCase_char_def digit_char_def)

lemma toLowerCase_string_of_nat: "toLowerCase (string_of_nat n) = string_of_nat n"
proof (induction n rule: string_of_nat.induct)
  case (1 n)
  show ?case
  proof (cases "n < 10")
    case True
    then show ?thesis
      by (simp add: string_of_nat.simps [of n] toLowerCase_def toLowerCase_digit)
  next
    case False
    with 1 show ?thesis
      by (simp add: string_of_nat.simps [of n] toLowerCase_def toLowerCase_digit)
  qed
qed

lemma toLowerCase_numbered_name:
  "toLowerCase (numbered_name b k) = toLowerCase b @ '' '' @ string_of_nat k"
  using toLowerCase_string_of_nat [of k]
  by (simp add: numbered_name_def toLowerCase_def toLowerCase_char_def)

lemma numbered_name_lower_inj:
  "toLowerCase (numbered_name b j) = toLowerCase (numbered_name b k) \<Longrightarrow> j = k"
  by (simp add: toLowerCase_numbered_name string_of_nat_inj)

lemma finite_same_name: "finite {k. toLowerCase n = toLowerCase (numbered_name b k)}"
proof (cases "\<exists>j. toLowerCase n = toLowerCase (numbered_name b j)")
  case True
  then obtain j where j: "toLowerCase n = toLowerCase (numbered_name b j)" ..
  have "{k. toLowerCase n = toLowerCase (numbered_name b k)} \<subseteq> {j}"
    using j numbered_name_lower_inj by auto
  then show ?thesis by (rule finite_subset) simp
next
  case False
  then show ?thesis by simp
qed

lemma finite_taken: "finite {k. name_taken names (numbered_name b k)}"
proof -
  have "{k. name_taken names (numbered_name b k)}
        \<subseteq> (\<Union>n \<in> set names. {k. toLowerCase n = toLowerCase (numbered_name b k)})"
    by (auto simp: name_taken_def list_ex_iff)
  moreover have "finite (\<Union>n \<in> set names. {k. toLowerCase n = toLowerCase (numbered_name b k)})"
    by (rule finite_UN_I) (simp_all add: finite_same_name)
  ultimately show ?thesis by (rule finite_subset)
qed

function next_free_counter :: "string list \<Rightarrow> string \<Rightarrow> nat \<Rightarrow> nat" where
  "next_free_counter existingNames baseName2 counter =
     (if name_taken existingNames (numbered_name baseName2 counter)
      then next_free_counter existingNames baseName2 (Suc counter)
      else counter)"
  by pat_completeness auto
termination
proof (relation "measure (\<lambda>(names, b, c). card {k. c \<le> k \<and> name_taken names (numbered_name b k)})")
  show "wf (measure (\<lambda>(names, b, c). card {k. c \<le> k \<and> name_taken names (numbered_name b k)}))"
    by simp
next
  fix existingNames baseName2 counter
  assume taken: "name_taken existingNames (numbered_name baseName2 counter)"
  let ?A = "\<lambda>c. {k. c \<le> k \<and> name_taken existingNames (numbered_name baseName2 k)}"
  have fin: "finite (?A counter)"
    using finite_taken [of existingNames baseName2] by simp
  have "counter \<in> ?A counter" "counter \<notin> ?A (Suc counter)" "?A (Suc counter) \<subseteq> ?A counter"
    using taken by auto
  then have "?A (Suc counter) \<subset> ?A counter"
    by blast
  then have "card (?A (Suc counter)) < card (?A counter)"
    using fin by (rule psubset_card_mono [rotated])
  then show "((existingNames, baseName2, Suc counter), (existingNames, baseName2, counter))
        \<in> measure (\<lambda>(names, b, c). card {k. c \<le> k \<and> name_taken names (numbered_name b k)})"
    by simp
qed

declare next_free_counter.simps [simp del]

definition generateDefaultDeveloperName :: "string \<Rightarrow> string list \<Rightarrow> string" where
  "generateDefaultDeveloperName developerId existingNames =
     (let idParts0 = split_first developerId;
          baseName = (if idParts0 = [] then ''dev'' else idParts0);
          namePatterns =
            [''Developer '' @ baseName,
             ''Dev '' @ baseName,
             toUpperCase (take 1 baseName) @ drop 1 baseName @ '' Developer'',
             ''Team Member '' @ baseName]
      in case find (\<lambda>pattern. \<not> name_taken existingNames pattern) namePatterns of
           Some pattern \<Rightarrow> pattern
         | None \<Rightarrow>
             (let baseName2 = ''Developer '' @ baseName
              in numbered_name baseName2 (next_free_counter existingNames baseName2 1)))"

subsection \<open>Deriving the developer list from the tasks\<close>

text \<open>
  \<open>updateDeveloperStats\<close> first overwrites the three aggregate fields of every known
  developer, then walks the set of truthy \<open>assignedTo\<close> values (a non-empty string is
  truthy, \<open>undefined\<close> and the empty string are not) and pushes a record for every id
  that \<open>find\<close> does not locate in the list built so far.
\<close>

definition refresh_stats :: "Task list \<Rightarrow> Developer \<Rightarrow> Developer" where
  "refresh_stats ts dev =
     (let stats = calculateDeveloperStats ts (dev_id dev)
      in dev\<lparr> totalPoints := s_totalPoints stats,
              completedTasks := s_completedTasks stats,
              totalHours := s_totalHours stats \<rparr>)"

definition truthy_assignee :: "Task \<Rightarrow> bool" where
  "truthy_assignee task = (case assignedTo task of None \<Rightarrow> False | Some a \<Rightarrow> a \<noteq> [])"

definition assignedDeveloperIds :: "Task list \<Rightarrow> string list" where
  "assignedDeveloperIds ts = Set_of (map (\<lambda>task. the (assignedTo task)) (filter truthy_assignee ts))"

definition provision :: "Task list \<Rightarrow> string \<Rightarrow> Developer list \<Rightarrow> Developer list" where
  "provision ts devId updatedDevelopers =
     (if find (\<lambda>dev. dev_id dev = devId) updatedDevelopers = None
      then (let stats = calculateDeveloperStats ts devId;
                existingNames = map dev_name updatedDevelopers;
                defaultName = generateDefaultDeveloperName devId existingNames
            in updatedDevelopers @
               [\<lparr> dev_id = devId, dev_name = defaultName,
                   totalPoints = s_totalPoints stats,
                   completedTasks = s_completedTasks stats,
                   totalHours = s_totalHours stats \<rparr>])
      else updatedDevelopers)"

definition updateDeveloperStats :: "Task list \<Rightarrow> Developer list \<Rightarrow> Developer list" where
  "updateDeveloperStats ts devs =
     fold (provision ts) (assignedDeveloperIds ts) (map (refresh_stats ts) devs)"

subsection \<open>The public mutations\<close>

definition addTask :: "Task \<Rightarrow> AppState \<Rightarrow> AppState" where
  "addTask task prevState =
     (let newTasks = tasks prevState @ [task];
          updatedDevelopers = updateDeveloperStats newTasks (developers prevState)
      in \<lparr> tasks = newTasks, developers = updatedDevelopers \<rparr>)"

text \<open>The object spread \<open>{ ...task, ...updates }\<close>: the properties of the patch win.\<close>

definition spread :: "Task \<Rightarrow> TaskPatch \<Rightarrow> Task" where
  "spread task updates =
     \<lparr> task_id = (case p_id updates of None \<Rightarrow> task_id task | Some v \<Rightarrow> v),
       task_name = (case p_name updates of None \<Rightarrow> task_name task | Some v \<Rightarrow> v),
       description = (case p_description updates of None \<Rightarrow> description task | Some v \<Rightarrow> v),
       points = (case p_points updates of None \<Rightarrow> points task | Some v \<Rightarrow> v),
       status = (case p_status updates of None \<Rightarrow> status task | Some v \<Rightarrow> v),
       assignedTo = (case p_assignedTo updates of None \<Rightarrow> assignedTo task | Some v \<Rightarrow> v),
       createdAt = (case p_createdAt updates of None \<Rightarrow> createdAt task | Some v \<Rightarrow> v),
       completedAt = (case p_completedAt updates of None \<Rightarrow> completedAt task | Some v \<Rightarrow> v),
       completionDetails =
         (case p_completionDetails updates of None \<Rightarrow> completionDetails task | Some v \<Rightarrow> v) \<rparr>"

definition updateTask :: "string \<Rightarrow> TaskPatch \<Rightarrow> AppState \<Rightarrow> AppState" where
  "updateTask taskId updates prevState =
     (let newTasks =
            map (\<lambda>task. if task_id task = taskId then spread task updates else task)
                (tasks prevState);
          updatedDevelopers = updateDeveloperStats newTasks (developers prevState)
      in \<lparr> tasks = newTasks, developers = updatedDevelopers \<rparr>)"

definition deleteTask :: "string \<Rightarrow> AppState \<Rightarrow> AppState" where
  "deleteTask taskId prevState =
     (let newTasks = filter (\<lambda>task. task_id task \<noteq> taskId) (tasks prevState);
          updatedDevelopers = updateDeveloperStats newTasks (developers prevState)
      in \<lparr> tasks = newTasks, developers = updatedDevelopers \<rparr>)"

text \<open>\<open>findIndex\<close>: the first position where the test holds, \<open>None\<close> for \<open>-1\<close>.\<close>

fun findIndex :: "('a \<Rightarrow> bool) \<Rightarrow> 'a list \<Rightarrow> nat option" where
  "findIndex P [] = None"
| "findIndex P (x # xs) =
     (if P x then Some 0 else (case findIndex P xs of None \<Rightarrow> None | Some i \<Rightarrow> Some (Suc i)))"

definition updateDeveloper :: "Developer \<Rightarrow> AppState \<Rightarrow> AppState" where
  "updateDeveloper developer prevState =
     (case findIndex (\<lambda>dev. dev_id dev = dev_id developer) (developers prevState) of
        Some existingIndex \<Rightarrow>
          prevState\<lparr> developers := (developers prevState)[existingIndex := developer] \<rparr>
      | None \<Rightarrow> prevState\<lparr> developers := developers prevState @ [developer] \<rparr>)"

definition addDeveloper :: "Developer \<Rightarrow> AppState \<Rightarrow> AppState" where
  "addDeveloper developer prevState =
     (case find (\<lambda>dev. dev_id dev = dev_id developer) (developers prevState) of
        Some existingDeveloper \<Rightarrow> prevState
      | None \<Rightarrow> prevState\<lparr> developers := developers prevState @ [developer] \<rparr>)"

text \<open>
  \<open>deleteDeveloper\<close> also counts the reassigned tasks, for a log line only; the count
  is not part of the state and is left out.
\<close>

definition deleteDeveloper :: "string \<Rightarrow> AppState \<Rightarrow> AppState" where
  "deleteDeveloper developerId prevState =
     (let updatedTasks =
            map (\<lambda>task. if assignedTo task = Some developerId \<and> status task \<noteq> Completed
                        then task\<lparr> status := Backlog, assignedTo := None \<rparr>
                        else task)
                (tasks prevState);
          newDevelopers = filter (\<lambda>dev. dev_id dev \<noteq> developerId) (developers prevState)
      in \<lparr> tasks = updatedTasks, developers = newDevelopers \<rparr>)"

subsection \<open>The periodic consistency sweep\<close>

text \<open>
  \<open>validateAndCleanup\<close>, run by a timer every 30 seconds.  The source writes the two
  fields into the task objects and returns the previous state object when no task was
  touched.
\<close>

definition orphaned :: "Developer list \<Rightarrow> Task \<Rightarrow> bool" where
  "orphaned devs task =
     (truthy_assignee task \<and> the (assignedTo task) \<notin> set (map dev_id devs))"

definition validateAndCleanup :: "AppState \<Rightarrow> AppState" where
  "validateAndCleanup prevState =
     (let cleanedDevelopers = developers prevState;
          hasChanges = list_ex (orphaned cleanedDevelopers) (tasks prevState);
          cleanedTasks =
            map (\<lambda>task. if orphaned cleanedDevelopers task
                        then task\<lparr> assignedTo := None, status := Backlog \<rparr>
                        else task)
                (tasks prevState)
      in if hasChanges then \<lparr> tasks = cleanedTasks, developers = cleanedDevelopers \<rparr>
         else prevState)"

section \<open>Example boards\<close>

text \<open>
  Concrete records used to evaluate the operations: one completed and one assigned task of
  developer \<open>dev-1\<close>, a developer whose aggregates agree with them, a developer added by
  hand with aggregates of its own (as the hook's tests do), and a task whose
  \<open>assignedTo\<close> is the empty string.
\<close>

definition task_done :: Task where
  "task_done = \<lparr> task_id = ''task-1'', task_name = ''Fix bug'', description = ''Crash on save'',
       points = 10, status = Completed, assignedTo = Some ''dev-1'',
       createdAt = Date ''2024-01-01T00:00:00.000Z'',
       completedAt = Some (Date ''2024-01-02T00:00:00.000Z''),
       completionDetails = Some \<lparr> hoursSpent = 5, gitCommit = ''abc123'', comments = ''done'' \<rparr> \<rparr>"

definition task_open :: Task where
  "task_open = \<lparr> task_id = ''task-2'', task_name = ''Add page'', description = ''Settings page'',
       points = 15, status = Assigned, assignedTo = Some ''dev-1'',
       createdAt = Date ''2024-01-03T00:00:00.000Z'',
       completedAt = None, completionDetails = None \<rparr>"

definition dev_1 :: Developer where
  "dev_1 = \<lparr> dev_id = ''dev-1'', dev_name = ''Dev One'',
       totalPoints = 10, completedTasks = 1, totalHours = 5 \<rparr>"

definition dev_2 :: Developer where
  "dev_2 = \<lparr> dev_id = ''dev-2'', dev_name = ''Dev Two'',
       totalPoints = 0, completedTasks = 0, totalHours = 0 \<rparr>"

definition board :: AppState where
  "board = \<lparr> tasks = [task_done, task_open], developers = [dev_1] \<rparr>"


definition empty_state :: AppState where
  "empty_state = \<lparr> tasks = [], developers = [] \<rparr>"

definition task_blank :: Task where
  "task_blank = task_open\<lparr> assignedTo := Some [] \<rparr>"

text \<open>The empty patch, the patch that completes a task, and a task created in the backlog.\<close>

definition no_patch :: TaskPatch where
  "no_patch = \<lparr> p_id = None, p_name = None, p_description = None, p_points = None,
       p_status = None, p_assignedTo = None, p_createdAt = None, p_completedAt = None,
       p_completionDetails = None \<rparr>"

definition complete_patch :: TaskPatch where
  "complete_patch = no_patch\<lparr> p_status := Some Completed,
       p_completedAt := Some (Some (Date ''2024-01-06T00:00:00.000Z'')),
       p_completionDetails :=
         Some (Some \<lparr> hoursSpent = 5, gitCommit = ''abc123'', comments = ''done'' \<rparr>) \<rparr>"

definition task_fix_bug :: Task where
  "task_fix_bug = \<lparr> task_id = ''task-9'', task_name = ''Fix bug'', description = ''Crash'',
       points = 10, status = Backlog, assignedTo = None,
       createdAt = Date ''2024-01-05T00:00:00.000Z'',
       completedAt = None, completionDetails = None \<rparr>"

lemmas fixture_defs = task_done_def task_open_def dev_1_def dev_2_def board_def

section \<open>Developer aggregates\<close>

text \<open>
  The aggregates as the specification words them: sums and a count over the completed
  tasks assigned to the developer's id.  A completed task without completion details
  contributes no hours.
\<close>

definition completed_for :: "Task list \<Rightarrow> string \<Rightarrow> Task list" where
  "completed_for ts d = filter (\<lambda>task. assignedTo task = Some d \<and> status task = Completed) ts"

definition hours_of :: "Task \<Rightarrow> real" where
  "hours_of task = (case completionDetails task of None \<Rightarrow> 0 | Some d \<Rightarrow> hoursSpent d)"



lemma foldl_add_sum_list:
  fixes a :: real
  shows "foldl (\<lambda>sum x. sum + f x) a xs = a + sum_list (map f xs)"
  by (induction xs arbitrary: a) simp_all

lemma calculateDeveloperStats_sums:
  "s_totalPoints (calculateDeveloperStats ts d) = sum_list (map points (completed_for ts d))"
  "s_completedTasks (calculateDeveloperStats ts d) = real (length (completed_for ts d))"
  "s_totalHours (calculateDeveloperStats ts d) = sum_list (map hours_of (completed_for ts d))"
proof -
  have h: "(\<lambda>task. case completionDetails task of None \<Rightarrow> 0
                    | Some d \<Rightarrow> if hoursSpent d = 0 then 0 else hoursSpent d) = hours_of"
    by (auto simp: hours_of_def fun_eq_iff split: option.splits)
  show "s_totalPoints (calculateDeveloperStats ts d) = sum_list (map points (completed_for ts d))"
    by (simp add: calculateDeveloperStats_def completed_for_def foldl_add_sum_list Let_def)
  show "s_completedTasks (calculateDeveloperStats ts d) = real (length (completed_for ts d))"
    by (simp add: calculateDeveloperStats_def completed_for_def Let_def)
  show "s_totalHours (calculateDeveloperStats ts d) = sum_list (map hours_of (completed_for ts d))"
    by (simp add: calculateDeveloperStats_def completed_for_def foldl_add_sum_list h Let_def)
qed












section \<open>Deleting a developer\<close>

text \<open>
  Claim C2.  \<open>deleteDeveloper d\<close> removes the developer records with id \<open>d\<close> and keeps the
  others in order; the task list keeps its length and, position by position, a task
  assigned to \<open>d\<close> that is not completed gets status \<open>backlog\<close> and no \<open>assignedTo\<close>
  (its other fields kept), a completed task assigned to \<open>d\<close> is unchanged, and a task not
  assigned to \<open>d\<close> is unchanged.
\<close>

theorem deleteDeveloper_effect:
  "developers (deleteDeveloper d s) = filter (\<lambda>dev. dev_id dev \<noteq> d) (developers s) \<and>
   d \<notin> set (map dev_id (developers (deleteDeveloper d s))) \<and>
   length (tasks (deleteDeveloper d s)) = length (tasks s) \<and>
   (\<forall>i < length (tasks s).
      (assignedTo (tasks s ! i) = Some d \<and> status (tasks s ! i) \<noteq> Completed \<longrightarrow>
         tasks (deleteDeveloper d s) ! i = (tasks s ! i)\<lparr> status := Backlog, assignedTo := None \<rparr>) \<and>
      (assignedTo (tasks s ! i) = Some d \<and> status (tasks s ! i) = Completed \<longrightarrow>
         tasks (deleteDeveloper d s) ! i = tasks s ! i) \<and>
      (assignedTo (tasks s ! i) \<noteq> Some d \<longrightarrow>
         tasks (deleteDeveloper d s) ! i = tasks s ! i))"
  by (auto simp: deleteDeveloper_def)

theorem deleteDeveloper_effect_witness:
  "(1::nat) < length (tasks board) \<and>
   assignedTo (tasks board ! 1) = Some ''dev-1'' \<and> status (tasks board ! 1) \<noteq> Completed \<and>
   assignedTo (tasks board ! 0) = Some ''dev-1'' \<and> status (tasks board ! 0) = Completed \<and>
   developers (deleteDeveloper ''dev-1'' board) = [] \<and>
   tasks (deleteDeveloper ''dev-1'' board) ! 1 = task_open\<lparr> status := Backlog, assignedTo := None \<rparr> \<and>
   tasks (deleteDeveloper ''dev-1'' board) ! 0 = task_done"
  using deleteDeveloper_effect [of "''dev-1''" board]
  by (simp add: fixture_defs)

section \<open>The consistency sweep\<close>

text \<open>
  Claim C3 says that a completed task keeps its status and its \<open>assignedTo\<close> through
  \<open>deleteDeveloper\<close> and any number of sweeps.  \<open>deleteDeveloper\<close> does keep it, but the
  first sweep afterwards finds the task assigned to an id that is no longer in the
  developer list and resets it: the sweep has no test for \<open>completed\<close>.  Evaluated on the
  example board:
\<close>

theorem sweep_after_deleteDeveloper_resets_completed:
  "tasks (deleteDeveloper ''dev-1'' board) ! 0 = task_done \<and>
   tasks (validateAndCleanup (deleteDeveloper ''dev-1'' board)) ! 0 =
     task_done\<lparr> assignedTo := None, status := Backlog \<rparr> \<and>
   status (tasks (validateAndCleanup (deleteDeveloper ''dev-1'' board)) ! 0) = Backlog \<and>
   assignedTo (tasks (validateAndCleanup (deleteDeveloper ''dev-1'' board)) ! 0) = None"
  by (simp add: validateAndCleanup_def deleteDeveloper_def orphaned_def truthy_assignee_def
        fixture_defs)

text \<open>
  Claim C4, as amended.  One run of the sweep leaves the developer list unchanged and the
  task list at its length; position by position, a task whose \<open>assignedTo\<close> is present,
  is not the empty string and is the id of no developer gets \<open>assignedTo\<close> cleared and
  status \<open>backlog\<close> with every other field kept, and every other task is unchanged.
\<close>

theorem validateAndCleanup_effect:
  "developers (validateAndCleanup s) = developers s \<and>
   length (tasks (validateAndCleanup s)) = length (tasks s) \<and>
   (\<forall>i < length (tasks s).
      ((\<exists>a. assignedTo (tasks s ! i) = Some a \<and> a \<noteq> [] \<and> a \<notin> set (map dev_id (developers s))) \<longrightarrow>
         tasks (validateAndCleanup s) ! i = (tasks s ! i)\<lparr> assignedTo := None, status := Backlog \<rparr>) \<and>
      (\<not> (\<exists>a. assignedTo (tasks s ! i) = Some a \<and> a \<noteq> [] \<and> a \<notin> set (map dev_id (developers s))) \<longrightarrow>
         tasks (validateAndCleanup s) ! i = tasks s ! i))"
proof -
  have orph: "orphaned (developers s) t \<longleftrightarrow>
      (\<exists>a. assignedTo t = Some a \<and> a \<noteq> [] \<and> a \<notin> set (map dev_id (developers s)))" for t
    by (auto simp: orphaned_def truthy_assignee_def split: option.splits)
  show ?thesis
  proof (cases "list_ex (orphaned (developers s)) (tasks s)")
    case True
    then show ?thesis
      by (auto simp: validateAndCleanup_def orph Let_def)
  next
    case False
    then have "\<forall>i < length (tasks s). \<not> orphaned (developers s) (tasks s ! i)"
      by (auto simp: list_ex_iff)
    with False show ?thesis
      by (auto simp: validateAndCleanup_def Let_def orph)
  qed
qed

theorem validateAndCleanup_effect_witness:
  "(0::nat) < length (tasks (deleteDeveloper ''dev-1'' board)) \<and>
   assignedTo (tasks (deleteDeveloper ''dev-1'' board) ! 0) = Some ''dev-1'' \<and>
   ''dev-1'' \<notin> set (map dev_id (developers (deleteDeveloper ''dev-1'' board))) \<and>
   tasks (validateAndCleanup (deleteDeveloper ''dev-1'' board)) ! 0 =
     task_done\<lparr> assignedTo := None, status := Backlog \<rparr> \<and>
   tasks (validateAndCleanup (deleteDeveloper ''dev-1'' board)) ! 1 =
     task_open\<lparr> status := Backlog, assignedTo := None \<rparr>"
  using validateAndCleanup_effect [of "deleteDeveloper ''dev-1'' board"]
  by (simp add: deleteDeveloper_def fixture_defs)

text \<open>
  Claim C4 as stated fails where \<open>assignedTo\<close> is present but empty: the sweep tests
  \<open>task.assignedTo &&\<close>, the empty string is falsy, and the task is left as it is although
  no developer has the id.
\<close>

theorem validateAndCleanup_counterexample:
  "assignedTo task_blank = Some [] \<and>
   [] \<notin> set (map dev_id (developers \<lparr> tasks = [task_blank], developers = [dev_1] \<rparr>)) \<and>
   tasks (validateAndCleanup \<lparr> tasks = [task_blank], developers = [dev_1] \<rparr>) = [task_blank] \<and>
   status task_blank = Assigned"
  by (simp add: validateAndCleanup_def orphaned_def truthy_assignee_def task_blank_def fixture_defs)

section \<open>Auto-provisioning of developers\<close>

text \<open>A task assigned to an id that no developer has yet.\<close>

definition task_new :: Task where
  "task_new = \<lparr> task_id = ''task-3'', task_name = ''Write docs'', description = ''README'',
       points = 5, status = Assigned, assignedTo = Some ''unknown-id'',
       createdAt = Date ''2024-01-04T00:00:00.000Z'',
       completedAt = None, completionDetails = None \<rparr>"

text \<open>
  \<open>new Set\<close> keeps each id once; the generated name is never one that is taken; an id
  that is already in the list is skipped and an unknown one is appended.
\<close>

lemma Set_of_acc:
  "set (foldl (\<lambda>acc x. if x \<in> set acc then acc else acc @ [x]) acc xs) = set acc \<union> set xs"
  "distinct acc \<Longrightarrow> distinct (foldl (\<lambda>acc x. if x \<in> set acc then acc else acc @ [x]) acc xs)"
  by (induction xs arbitrary: acc) auto

lemma set_Set_of: "set (Set_of xs) = set xs"
  by (simp add: Set_of_def Set_of_acc)

lemma distinct_Set_of: "distinct (Set_of xs)"
  by (simp add: Set_of_def Set_of_acc)

lemma set_assignedDeveloperIds:
  "set (assignedDeveloperIds ts) = {a. a \<noteq> [] \<and> (\<exists>task \<in> set ts. assignedTo task = Some a)}"
proof -
  have "set (assignedDeveloperIds ts) = (\<lambda>task. the (assignedTo task)) ` {task \<in> set ts. truthy_assignee task}"
    by (simp add: assignedDeveloperIds_def set_Set_of)
  also have "\<dots> = {a. a \<noteq> [] \<and> (\<exists>task \<in> set ts. assignedTo task = Some a)}"
  proof (rule set_eqI, rule iffI)
    fix a
    assume "a \<in> (\<lambda>task. the (assignedTo task)) ` {task \<in> set ts. truthy_assignee task}"
    then obtain task where "task \<in> set ts" "truthy_assignee task" "a = the (assignedTo task)"
      by auto
    then show "a \<in> {a. a \<noteq> [] \<and> (\<exists>task \<in> set ts. assignedTo task = Some a)}"
      by (cases "assignedTo task") (auto simp: truthy_assignee_def)
  next
    fix a
    assume "a \<in> {a. a \<noteq> [] \<and> (\<exists>task \<in> set ts. assignedTo task = Some a)}"
    then obtain task where t: "a \<noteq> []" "task \<in> set ts" "assignedTo task = Some a"
      by auto
    then have "truthy_assignee task" "a = the (assignedTo task)"
      by (simp_all add: truthy_assignee_def)
    with t show "a \<in> (\<lambda>task. the (assignedTo task)) ` {task \<in> set ts. truthy_assignee task}"
      by blast
  qed
  finally show ?thesis .
qed

lemma next_free_counter_free:
  "\<not> name_taken names (numbered_name b (next_free_counter names b c))"
proof (induction names b c rule: next_free_counter.induct)
  case (1 names b c)
  then show ?case
    by (cases "name_taken names (numbered_name b c)")
       (simp_all add: next_free_counter.simps [of names b c])
qed

lemma generateDefaultDeveloperName_free:
  "\<not> name_taken names (generateDefaultDeveloperName devId names)"
proof -
  have "\<not> name_taken names p" if "find (\<lambda>pattern. \<not> name_taken names pattern) ps = Some p" for ps p
    using that by (auto simp: find_Some_iff)
  then show ?thesis
    by (auto simp: generateDefaultDeveloperName_def Let_def next_free_counter_free
             split: option.splits)
qed

lemma provision_known:
  "devId \<in> set (map dev_id devs) \<Longrightarrow> provision ts devId devs = devs"
  by (auto simp: provision_def find_None_iff)

lemma fold_provision_known:
  "set ids \<subseteq> set (map dev_id devs) \<Longrightarrow> fold (provision ts) ids devs = devs"
  by (induction ids) (simp_all add: provision_known)

definition provisioned :: "Task list \<Rightarrow> string \<Rightarrow> Developer list \<Rightarrow> Developer" where
  "provisioned ts devId devs =
     \<lparr> dev_id = devId,
       dev_name = generateDefaultDeveloperName devId (map dev_name devs),
       totalPoints = s_totalPoints (calculateDeveloperStats ts devId),
       completedTasks = s_completedTasks (calculateDeveloperStats ts devId),
       totalHours = s_totalHours (calculateDeveloperStats ts devId) \<rparr>"

lemma provision_unknown:
  "devId \<notin> set (map dev_id devs) \<Longrightarrow>
   provision ts devId devs = devs @ [provisioned ts devId devs]"
  by (auto simp: provision_def find_None_iff provisioned_def Let_def)

lemma fold_provision_one:
  assumes "distinct ids" "u \<in> set ids" "u \<notin> set (map dev_id devs)"
    and "\<forall>x \<in> set ids. x \<noteq> u \<longrightarrow> x \<in> set (map dev_id devs)"
  shows "fold (provision ts) ids devs = devs @ [provisioned ts u devs]"
proof -
  from assms(2) obtain pre post where ids: "ids = pre @ u # post"
    by (auto dest: split_list)
  with assms(1) have nu: "u \<notin> set pre" "u \<notin> set post" by auto
  have pre: "fold (provision ts) pre devs = devs"
    using assms(4) nu by (intro fold_provision_known) (auto simp: ids)
  have post: "fold (provision ts) post (devs @ [provisioned ts u devs]) = devs @ [provisioned ts u devs]"
    using assms(4) nu by (intro fold_provision_known) (auto simp: ids)
  show ?thesis
    by (simp add: ids pre provision_unknown [OF assms(3)] post)
qed

lemma completed_for_none:
  "\<forall>task \<in> set ts. assignedTo task = Some d \<longrightarrow> status task \<noteq> Completed \<Longrightarrow>
   completed_for ts d = []"
  by (auto simp: completed_for_def filter_empty_conv)

lemma refresh_stats_sel:
  "dev_id (refresh_stats ts dev) = dev_id dev" "dev_name (refresh_stats ts dev) = dev_name dev"
  by (simp_all add: refresh_stats_def Let_def)

text \<open>Two evaluations of the name generator: the first pattern, and the numbered names.\<close>

lemma default_name_first_pattern: "generateDefaultDeveloperName ''unknown-id'' [''Dev One''] = ''Developer unknown''"
  by code_simp

lemma default_name_numbered: "generateDefaultDeveloperName ''unknown-id'' [''developer UNKNOWN'', ''dev unknown'', ''unknown developer'', ''TEAM member unknown'', ''Developer unknown 1''] = ''Developer unknown 2''"
  by code_simp

text \<open>
  The scenario of the specification: a task created in the backlog and then assigned to
  \<open>dev-1\<close> creates that developer with zero aggregates; completing it with 5 hours
  gives the developer 10 points, 1 completed task and 5 hours.
\<close>

lemma scenario_assign_then_complete:
  "developers (updateTask ''task-9'' (no_patch\<lparr> p_status := Some Assigned, p_assignedTo := Some (Some ''dev-1'') \<rparr>)
                 (addTask task_fix_bug empty_state)) =
     [\<lparr> dev_id = ''dev-1'', dev_name = ''Developer dev'',
        totalPoints = 0, completedTasks = 0, totalHours = 0 \<rparr>]"
  "developers (updateTask ''task-9'' complete_patch
                 (updateTask ''task-9'' (no_patch\<lparr> p_status := Some Assigned, p_assignedTo := Some (Some ''dev-1'') \<rparr>)
                    (addTask task_fix_bug empty_state))) =
     [\<lparr> dev_id = ''dev-1'', dev_name = ''Developer dev'',
        totalPoints = 10, completedTasks = 1, totalHours = 5 \<rparr>]"
  by code_simp+

text \<open>
  Claim C5, as amended.  Let the state have no developer with id \<open>u\<close>, let \<open>u\<close> be
  non-empty and \<open>t\<close> a task with \<open>assignedTo = u\<close> that is not completed, and let every
  earlier task with a non-empty \<open>assignedTo\<close> either name a known developer or name \<open>u\<close>
  without being completed.  Then \<open>addTask t\<close> appends \<open>t\<close>, and the developer list becomes
  the previous developers in order (same ids and names, aggregates re-derived) followed
  by exactly one new record: its id is \<open>u\<close>, its three aggregates are zero, and its
  generated name differs from every previous developer name also when both are
  lower-cased.
\<close>

theorem addTask_provisions_unknown_assignee:
  assumes "u \<noteq> []" and "u \<notin> set (map dev_id (developers s))"
    and "assignedTo t = Some u" and "status t \<noteq> Completed"
    and "\<forall>task \<in> set (tasks s). \<forall>a. assignedTo task = Some a \<longrightarrow>
           a = [] \<or> (a = u \<and> status task \<noteq> Completed) \<or> a \<in> set (map dev_id (developers s))"
  shows "tasks (addTask t s) = tasks s @ [t] \<and>
         developers (addTask t s) =
           map (refresh_stats (tasks s @ [t])) (developers s) @
           [\<lparr> dev_id = u,
              dev_name = generateDefaultDeveloperName u (map dev_name (developers s)),
              totalPoints = 0, completedTasks = 0, totalHours = 0 \<rparr>] \<and>
         map dev_id (developers (addTask t s)) = map dev_id (developers s) @ [u] \<and>
         map dev_name (developers (addTask t s)) =
           map dev_name (developers s) @
           [generateDefaultDeveloperName u (map dev_name (developers s))] \<and>
         (\<forall>D \<in> set (developers s).
            toLowerCase (dev_name D) \<noteq>
            toLowerCase (generateDefaultDeveloperName u (map dev_name (developers s))))"
proof -
  let ?ts = "tasks s @ [t]"
  let ?devs = "map (refresh_stats ?ts) (developers s)"
  let ?name = "generateDefaultDeveloperName u (map dev_name (developers s))"
  have ids: "map dev_id ?devs = map dev_id (developers s)"
    and names: "map dev_name ?devs = map dev_name (developers s)"
    by (simp_all add: refresh_stats_sel)
  have known: "\<forall>x \<in> set (assignedDeveloperIds ?ts). x \<noteq> u \<longrightarrow> x \<in> set (map dev_id ?devs)"
    unfolding ids set_assignedDeveloperIds using assms(3,5) by auto
  have u_in: "u \<in> set (assignedDeveloperIds ?ts)"
    unfolding set_assignedDeveloperIds using assms(1,3) by auto
  have u_new: "u \<notin> set (map dev_id ?devs)"
    unfolding ids using assms(2) .
  have "distinct (assignedDeveloperIds ?ts)"
    by (simp add: assignedDeveloperIds_def distinct_Set_of)
  then have fold: "updateDeveloperStats ?ts (developers s) = ?devs @ [provisioned ?ts u ?devs]"
    unfolding updateDeveloperStats_def using u_in u_new known by (rule fold_provision_one)
  have "completed_for ?ts u = []"
    using assms by (intro completed_for_none) auto
  then have zero: "provisioned ?ts u ?devs =
      \<lparr> dev_id = u, dev_name = ?name, totalPoints = 0, completedTasks = 0, totalHours = 0 \<rparr>"
    by (simp add: provisioned_def calculateDeveloperStats_sums comp_def refresh_stats_sel)
  have devs: "developers (addTask t s) = ?devs @
      [\<lparr> dev_id = u, dev_name = ?name, totalPoints = 0, completedTasks = 0, totalHours = 0 \<rparr>]"
    by (simp add: addTask_def Let_def fold zero)
  have free: "\<forall>D \<in> set (developers s). toLowerCase (dev_name D) \<noteq> toLowerCase ?name"
    using generateDefaultDeveloperName_free [of "map dev_name (developers s)" u]
    by (auto simp: name_taken_def list_ex_iff)
  have "tasks (addTask t s) = tasks s @ [t]"
    by (simp add: addTask_def Let_def)
  moreover have "map dev_id (developers (addTask t s)) = map dev_id (developers s) @ [u]"
    unfolding devs using ids by simp
  moreover have "map dev_name (developers (addTask t s)) = map dev_name (developers s) @ [?name]"
    unfolding devs using names by simp
  ultimately show ?thesis
    using devs free by simp
qed

theorem addTask_provisions_unknown_assignee_witness:
  "developers (addTask task_new board) =
     [dev_1, \<lparr> dev_id = ''unknown-id'', dev_name = ''Developer unknown'',
               totalPoints = 0, completedTasks = 0, totalHours = 0 \<rparr>] \<and>
   tasks (addTask task_new board) = [task_done, task_open, task_new]"
proof -
  have h: "''unknown-id'' \<noteq> []" "''unknown-id'' \<notin> set (map dev_id (developers board))"
    "assignedTo task_new = Some ''unknown-id''" "status task_new \<noteq> Completed"
    "\<forall>task \<in> set (tasks board). \<forall>a. assignedTo task = Some a \<longrightarrow>
       a = [] \<or> (a = ''unknown-id'' \<and> status task \<noteq> Completed) \<or> a \<in> set (map dev_id (developers board))"
    by (simp_all add: fixture_defs task_new_def)
  have r: "map (refresh_stats (tasks board @ [task_new])) (developers board) = [dev_1]"
    by (simp add: refresh_stats_def calculateDeveloperStats_def fixture_defs task_new_def)
  show ?thesis
    using addTask_provisions_unknown_assignee [OF h] r
    by (simp add: default_name_first_pattern fixture_defs)
qed

text \<open>
  Claim C5 as stated fails in three ways.  The new record's aggregates are derived from
  the tasks, so a completed task of 10 points gives a new developer with 10 points; every
  unknown id among the tasks is provisioned, so an earlier task of an unknown developer
  gives two new records; and the empty string is not provisioned at all.
\<close>

theorem addTask_provision_counterexample:
  "totalPoints (last (developers (addTask (task_done\<lparr> assignedTo := Some ''unknown-id'' \<rparr>) empty_state))) = 10 \<and>
   map dev_id (developers (addTask task_new \<lparr> tasks = [task_open], developers = [] \<rparr>)) = [''dev-1'', ''unknown-id''] \<and>
   developers (addTask task_blank empty_state) = []"
  by code_simp

section \<open>Uniqueness of ids\<close>

text \<open>The six public mutations as one type, and a run of them from the empty state.\<close>

datatype mutation =
    AddTask Task
  | UpdateTask string TaskPatch
  | DeleteTask string
  | AddDeveloper Developer
  | UpdateDeveloper Developer
  | DeleteDeveloper string

fun apply_mutation :: "mutation \<Rightarrow> AppState \<Rightarrow> AppState" where
  "apply_mutation (AddTask task) s = addTask task s"
| "apply_mutation (UpdateTask taskId updates) s = updateTask taskId updates s"
| "apply_mutation (DeleteTask taskId) s = deleteTask taskId s"
| "apply_mutation (AddDeveloper developer) s = addDeveloper developer s"
| "apply_mutation (UpdateDeveloper developer) s = updateDeveloper developer s"
| "apply_mutation (DeleteDeveloper developerId) s = deleteDeveloper developerId s"

lemma findIndex_Some: "findIndex P xs = Some i \<Longrightarrow> i < length xs \<and> P (xs ! i)"
proof (induction xs arbitrary: i)
  case Nil
  then show ?case by simp
next
  case (Cons x xs)
  then show ?case
    by (cases "P x") (auto split: option.splits)
qed

lemma findIndex_None: "findIndex P xs = None \<Longrightarrow> \<forall>x \<in> set xs. \<not> P x"
  by (induction xs) (auto split: if_splits option.splits)

lemma provision_distinct:
  "distinct (map dev_id devs) \<Longrightarrow> distinct (map dev_id (provision ts devId devs))"
  by (cases "devId \<in> set (map dev_id devs)") (simp_all add: provision_known provision_unknown provisioned_def)

lemma fold_provision_distinct:
  "distinct (map dev_id devs) \<Longrightarrow> distinct (map dev_id (fold (provision ts) ids devs))"
  by (induction ids arbitrary: devs) (simp_all add: provision_distinct)

lemma updateDeveloperStats_distinct:
  "distinct (map dev_id devs) \<Longrightarrow> distinct (map dev_id (updateDeveloperStats ts devs))"
  unfolding updateDeveloperStats_def
  by (rule fold_provision_distinct) (simp add: comp_def refresh_stats_sel)

lemma updateDeveloper_distinct:
  assumes "distinct (map dev_id (developers s))"
  shows "distinct (map dev_id (developers (updateDeveloper dev s)))"
proof (cases "findIndex (\<lambda>D. dev_id D = dev_id dev) (developers s)")
  case None
  with assms findIndex_None [OF None] show ?thesis
    by (auto simp: updateDeveloper_def)
next
  case (Some i)
  from findIndex_Some [OF Some] have "i < length (developers s)" "dev_id (developers s ! i) = dev_id dev"
    by simp_all
  then have "map dev_id ((developers s)[i := dev]) = map dev_id (developers s)"
    by (simp add: map_update list_update_same_conv)
  with assms Some show ?thesis
    by (simp add: updateDeveloper_def)
qed

lemma apply_mutation_distinct:
  "distinct (map dev_id (developers s)) \<Longrightarrow> distinct (map dev_id (developers (apply_mutation m s)))"
proof (cases m)
  case (AddDeveloper dev)
  assume "distinct (map dev_id (developers s))"
  then show ?thesis
    by (auto simp: AddDeveloper addDeveloper_def find_None_iff split: option.splits)
qed (simp_all add: addTask_def updateTask_def deleteTask_def Let_def updateDeveloperStats_distinct
       updateDeveloper_distinct deleteDeveloper_def distinct_map_filter)

lemma developer_ids_distinct:
  "distinct (map dev_id (developers (fold apply_mutation ms empty_state)))"
proof -
  have "distinct (map dev_id (developers s)) \<Longrightarrow>
        distinct (map dev_id (developers (fold apply_mutation ms s)))" for s
    by (induction ms arbitrary: s) (simp_all add: apply_mutation_distinct)
  then show ?thesis by (simp add: empty_state_def)
qed

text \<open>
  Claim C9 says that no state reachable through the public mutations holds two tasks with
  the same id, and in particular that \<open>addTask\<close> never produces such a list.
  \<open>addDeveloper\<close> looks for the id before it appends, and the lemma above shows that
  developer ids stay distinct; \<open>addTask\<close> appends without looking.  Adding the same task
  twice to the empty state:
\<close>

theorem addTask_twice_duplicates_task_id:
  "map task_id (tasks (addTask task_new (addTask task_new empty_state))) = [''task-3'', ''task-3''] \<and>
   \<not> distinct (map task_id (tasks (addTask task_new (addTask task_new empty_state))))"
  by (simp add: addTask_def task_new_def empty_state_def Let_def)

section \<open>Form validation (lib/utils.ts)\<close>

text \<open>
  The form's \<open>hoursSpent\<close> is compared with zero, and a comparison tells NaN from every
  other number: it is false whenever an operand is NaN.  The field is therefore a
  JavaScript number with its special values.  \<open>CompletionFormData\<close> has the property
  names of \<open>TaskCompletionDetails\<close>; its fields carry a prefix.
\<close>

datatype number = NaN | NegInfinity | Finite real | Infinity

text \<open>The comparisons \<open>x <= 0\<close> and \<open>x > 0\<close> of JavaScript.\<close>

fun le_zero :: "number \<Rightarrow> bool" where
  "le_zero NaN = False"
| "le_zero NegInfinity = True"
| "le_zero (Finite r) = (r \<le> 0)"
| "le_zero Infinity = False"

fun gt_zero :: "number \<Rightarrow> bool" where
  "gt_zero NaN = False"
| "gt_zero NegInfinity = False"
| "gt_zero (Finite r) = (r > 0)"
| "gt_zero Infinity = True"

record CompletionFormData =
  form_hoursSpent :: number
  form_gitCommit :: string
  form_comments :: string

record ValidationError =
  field :: string
  message :: string

record FormValidationResult =
  isValid :: bool
  errors :: "ValidationError list"

text \<open>
  The regular expression \<open>/^[a-f0-9]{6,40}$/i\<close>, tested on a whole string: between 6 and
  40 characters, each a decimal digit or one of the letters a to f in either case.
\<close>

definition is_hex_digit :: "char \<Rightarrow> bool" where
  "is_hex_digit c =
     (let n = (of_char c :: nat)
      in (97 \<le> n \<and> n \<le> 102) \<or> (65 \<le> n \<and> n \<le> 70) \<or> (48 \<le> n \<and> n \<le> 57))"

definition commit_hash_regex :: "string \<Rightarrow> bool" where
  "commit_hash_regex s = (6 \<le> length s \<and> length s \<le> 40 \<and> list_all is_hex_digit s)"

text \<open>The error list grows by \<open>push\<close>; the three checks run in the order of the source.\<close>

definition validateCompletionForm :: "CompletionFormData \<Rightarrow> FormValidationResult" where
  "validateCompletionForm data =
     (let errors0 = [];
          errors1 =
            (if le_zero (form_hoursSpent data)
             then errors0 @ [\<lparr> field = ''hoursSpent'',
                                message = ''Hours spent must be greater than 0'' \<rparr>]
             else errors0);
          errors2 =
            (if trim (form_gitCommit data) = []
             then errors1 @ [\<lparr> field = ''gitCommit'',
                                message = ''Git commit reference is required'' \<rparr>]
             else if \<not> commit_hash_regex (trim (form_gitCommit data))
             then errors1 @ [\<lparr> field = ''gitCommit'',
                                message = ''Git commit must be a valid hash (6-40 characters)'' \<rparr>]
             else errors1);
          errors3 =
            (if trim (form_comments data) = []
             then errors2 @ [\<lparr> field = ''comments'',
                                message = ''Completion comments are required'' \<rparr>]
             else errors2)
      in \<lparr> isValid = (length errors3 = 0), errors = errors3 \<rparr>)"

text \<open>
  For every \<open>hoursSpent\<close> other than NaN the validation is as the specification says:
  \<open>isValid\<close> is true exactly when \<open>hoursSpent\<close> is greater than zero, the trimmed
  \<open>gitCommit\<close> matches the hash expression and the trimmed \<open>comments\<close> is not empty, and
  a condition that fails leaves an error naming its field.
\<close>

lemma validateCompletionForm_unless_NaN:
  assumes "form_hoursSpent d \<noteq> NaN"
  shows "(isValid (validateCompletionForm d) \<longleftrightarrow>
            gt_zero (form_hoursSpent d) \<and> commit_hash_regex (trim (form_gitCommit d)) \<and>
            trim (form_comments d) \<noteq> []) \<and>
         (\<not> gt_zero (form_hoursSpent d) \<longrightarrow>
            ''hoursSpent'' \<in> set (map field (errors (validateCompletionForm d)))) \<and>
         (\<not> commit_hash_regex (trim (form_gitCommit d)) \<longrightarrow>
            ''gitCommit'' \<in> set (map field (errors (validateCompletionForm d)))) \<and>
         (trim (form_comments d) = [] \<longrightarrow>
            ''comments'' \<in> set (map field (errors (validateCompletionForm d))))"
proof -
  have ne: "commit_hash_regex s \<Longrightarrow> s \<noteq> []" for s
    by (auto simp: commit_hash_regex_def)
  have le: "le_zero (form_hoursSpent d) \<longleftrightarrow> \<not> gt_zero (form_hoursSpent d)"
    using assms by (cases "form_hoursSpent d") auto
  show ?thesis
    using ne [of "trim (form_gitCommit d)"]
    by (auto simp: validateCompletionForm_def Let_def le)
qed

text \<open>The scenario of the specification: three errors, one on each field.\<close>

lemma validateCompletionForm_three_errors:
  "map field (errors (validateCompletionForm
      \<lparr> form_hoursSpent = Finite 0, form_gitCommit = ''xyz'', form_comments = [] \<rparr>))
     = [''hoursSpent'', ''gitCommit'', ''comments''] \<and>
   \<not> isValid (validateCompletionForm
      \<lparr> form_hoursSpent = Finite 0, form_gitCommit = ''xyz'', form_comments = [] \<rparr>) \<and>
   isValid (validateCompletionForm
      \<lparr> form_hoursSpent = Finite 5, form_gitCommit = '' ABC123 '', form_comments = ''done'' \<rparr>)"
proof -
  have a: "trim '' ABC123 '' = ''ABC123''" "trim ''done'' = ''done''" "trim ''xyz'' = ''xyz''" "trim [] = []"
    by (simp_all add: trim_def is_whitespace_def)
  have b: "commit_hash_regex ''ABC123''" "\<not> commit_hash_regex ''xyz''"
    by (simp_all add: commit_hash_regex_def is_hex_digit_def)
  show ?thesis
    by (simp add: validateCompletionForm_def a b)
qed

text \<open>
  Claim C8 says that \<open>isValid\<close> is true only if \<open>hoursSpent\<close> is greater than zero, and
  that a failing condition leaves an error on its field.  The source tests
  \<open>hoursSpent <= 0\<close>, which is false for NaN: with a well-formed commit hash and a
  comment, the form with \<open>hoursSpent = NaN\<close> is valid and has no error, although NaN is
  not greater than zero.
\<close>

theorem validateCompletionForm_accepts_NaN:
  "isValid (validateCompletionForm
      \<lparr> form_hoursSpent = NaN, form_gitCommit = ''abc123'', form_comments = ''done'' \<rparr>) \<and>
   errors (validateCompletionForm
      \<lparr> form_hoursSpent = NaN, form_gitCommit = ''abc123'', form_comments = ''done'' \<rparr>) = [] \<and>
   \<not> gt_zero NaN"
proof -
  have a: "trim ''abc123'' = ''abc123''" "trim ''done'' = ''done''"
    by (simp_all add: trim_def is_whitespace_def)
  have b: "commit_hash_regex ''abc123''"
    by (simp add: commit_hash_regex_def is_hex_digit_def)
  show ?thesis
    by (simp add: validateCompletionForm_def a b)
qed

section \<open>Saving and reloading (lib/hooks/useTaskStorage.ts)\<close>

text \<open>
  The hook's React state and its retry counter as one record.  The setters of the source
  (\<open>setState\<close>, \<open>setIsLoading\<close>, \<open>setError\<close>, \<open>setIsSaving\<close>, \<open>setLastSaved\<close>) become
  record updates.
\<close>

record Hook =
  state :: AppState
  isLoading :: bool
  error :: "string option"
  isSaving :: bool
  lastSaved :: "date option"
  retryCount :: nat

text \<open>
  What one call of \<open>saveData\<close> does: it resolves to \<open>true\<close>, resolves to \<open>false\<close>, or
  rejects.  \<open>forceSave\<close> returns the new hook state and the boolean it resolves to; the
  time of the call is a parameter.
\<close>

datatype save_outcome = Saved | Refused | Threw

definition maxRetries :: nat where
  "maxRetries = 3"

definition forceSave :: "date \<Rightarrow> save_outcome \<Rightarrow> Hook \<Rightarrow> Hook \<times> bool" where
  "forceSave now outcome h =
     (let h1 = h\<lparr> isSaving := True \<rparr>
      in case outcome of
           Saved \<Rightarrow> (h1\<lparr> lastSaved := Some now, isSaving := False \<rparr>, True)
         | Refused \<Rightarrow> (h1\<lparr> error := Some ''Failed to save data manually'', isSaving := False \<rparr>, False)
         | Threw \<Rightarrow> (h1\<lparr> error := Some ''Failed to save data manually'', isSaving := False \<rparr>, False))"

text \<open>
  Pending timers are state of their own: the one pending call that \<open>debounce\<close> keeps, the
  retries that \<open>saveFunction\<close> leaves behind (delay and data), and the retries of
  \<open>loadDataWithRetry\<close> (delay, the \<open>error\<close> its callback was created with, attempt).
\<close>

record Timers =
  debounceTimer :: "AppState option"
  retryTimers :: "(nat \<times> AppState) list"
  loadRetryTimers :: "(nat \<times> string option \<times> nat) list"

definition save_failed_message :: string where
  "save_failed_message = ''Failed to save data after multiple attempts. Your changes may be lost.''"

text \<open>
  \<open>saveFunction\<close> in two parts, split at its \<open>await\<close>: the setters before the call of
  \<open>saveData\<close> are committed while the call is under way, those after it when it has
  settled.
\<close>

definition saveFunction_begin :: "Hook \<Rightarrow> Hook" where
  "saveFunction_begin h = h\<lparr> isSaving := True, error := None \<rparr>"

definition saveFunction_settle ::
    "date \<Rightarrow> save_outcome \<Rightarrow> AppState \<Rightarrow> Hook \<times> Timers \<Rightarrow> Hook \<times> Timers" where
  "saveFunction_settle now outcome data = (\<lambda>(h, timers).
     if outcome = Saved
     then (h\<lparr> lastSaved := Some now, retryCount := 0, isSaving := False \<rparr>, timers)
     else (let h2 = h\<lparr> retryCount := retryCount h + 1 \<rparr>
           in if retryCount h2 \<le> maxRetries
              then (h2\<lparr> isSaving := False \<rparr>,
                    timers\<lparr> retryTimers := retryTimers timers @ [(1000 * retryCount h2, data)] \<rparr>)
              else (h2\<lparr> error := Some save_failed_message, isSaving := False \<rparr>, timers)))"

definition retryCallback :: "date \<Rightarrow> save_outcome \<Rightarrow> Hook \<Rightarrow> Hook" where
  "retryCallback now retryOutcome h =
     (if retryOutcome = Saved then h\<lparr> lastSaved := Some now, retryCount := 0 \<rparr>
      else if retryCount h \<ge> maxRetries then h\<lparr> error := Some save_failed_message \<rparr>
      else h)"

text \<open>
  \<open>loadDataWithRetry\<close>.  Its callback is created by \<open>useCallback\<close> with the dependency
  list \<open>[error]\<close>, so the \<open>error\<close> it reads in its \<open>finally\<close> block is the one of the
  render that created it, the first parameter here.  The second is the attempt, the third
  the state that \<open>loadData\<close> resolves to (\<open>loadData\<close> does not reject).
  \<open>isStorageAvailable\<close> of apiStorage.ts returns \<open>true\<close>.
\<close>

definition isStorageAvailable :: bool where
  "isStorageAvailable = True"

definition loadDataWithRetry ::
    "string option \<Rightarrow> nat \<Rightarrow> AppState \<Rightarrow> Hook \<times> Timers \<Rightarrow> Hook \<times> Timers" where
  "loadDataWithRetry closure_error attempt loadedData = (\<lambda>(h, timers).
     (let finally = (\<lambda>h'. if attempt \<ge> maxRetries \<or> closure_error = None
                          then h'\<lparr> isLoading := False \<rparr> else h')
      in if \<not> isStorageAvailable
         then (if attempt < maxRetries
               then (finally h,
                     timers\<lparr> loadRetryTimers := loadRetryTimers timers @
                               [(1000 * (attempt + 1), closure_error, attempt + 1)] \<rparr>)
               else (finally (h\<lparr> error := Some ''Failed to load data: API storage is not available'',
                                state := \<lparr> tasks = [], developers = [] \<rparr> \<rparr>),
                     timers))
         else (finally (h\<lparr> state := loadedData, error := None \<rparr>), timers)))"

text \<open>
  The effect \<open>useEffect(() => { loadDataWithRetry(); }, [loadDataWithRetry])\<close>.  React
  runs it after the first render and after every render in which \<open>loadDataWithRetry\<close> is
  a new function, that is, in which \<open>error\<close> differs from the render before.  The load it
  starts sets \<open>error\<close> itself, which can start the effect once more.  \<open>loads k\<close> is the
  state that the load numbered \<open>k\<close> of an event resolves to.
\<close>

definition load_effect ::
    "string option \<Rightarrow> (nat \<Rightarrow> AppState) \<Rightarrow> nat \<Rightarrow> Hook \<times> Timers \<Rightarrow> Hook \<times> Timers" where
  "load_effect error_before loads k = (\<lambda>(h, timers).
     if error h = error_before then (h, timers)
     else (let (h1, timers1) = loadDataWithRetry (error h) 0 (loads k) (h, timers)
           in if error h1 = error h then (h1, timers1)
              else loadDataWithRetry (error h1) 0 (loads (k + 1)) (h1, timers1)))"

text \<open>
  The events of the save path: the effect that follows a state change and calls the
  debounced save, the firing of the debounce timer, of a save retry and of a load retry,
  and a manual save.  Each carries what its calls of \<open>saveData\<close> and \<open>loadData\<close> do.
\<close>

datatype save_event =
    StateChanged
  | DebounceFires date save_outcome "nat \<Rightarrow> AppState"
  | RetryFires date save_outcome "nat \<Rightarrow> AppState"
  | LoadRetryFires AppState
  | ForceSave date save_outcome "nat \<Rightarrow> AppState"

fun save_step :: "save_event \<Rightarrow> Hook \<times> Timers \<Rightarrow> Hook \<times> Timers" where
  "save_step StateChanged (h, timers) =
     (if \<not> isLoading h then (h, timers\<lparr> debounceTimer := Some (state h) \<rparr>) else (h, timers))"
| "save_step (DebounceFires now outcome loads) (h, timers) =
     (case debounceTimer timers of
        None \<Rightarrow> (h, timers)
      | Some data \<Rightarrow>
          (let begun = load_effect (error h) loads 0
                         (saveFunction_begin h, timers\<lparr> debounceTimer := None \<rparr>)
           in load_effect (error (fst begun)) loads 2
                (saveFunction_settle now outcome data begun)))"
| "save_step (RetryFires now outcome loads) (h, timers) =
     (case retryTimers timers of
        [] \<Rightarrow> (h, timers)
      | pending # rest \<Rightarrow>
          load_effect (error h) loads 0
            (retryCallback now outcome h, timers\<lparr> retryTimers := rest \<rparr>))"
| "save_step (LoadRetryFires loadedData) (h, timers) =
     (case loadRetryTimers timers of
        [] \<Rightarrow> (h, timers)
      | (delay, closure_error, attempt) # rest \<Rightarrow>
          loadDataWithRetry closure_error attempt loadedData
            (h, timers\<lparr> loadRetryTimers := rest \<rparr>))"
| "save_step (ForceSave now outcome loads) (h, timers) =
     load_effect (error h) loads 0 (fst (forceSave now outcome h), timers)"

definition hook_0 :: Hook where
  "hook_0 = \<lparr> state = board, isLoading = False, error = None, isSaving = False,
              lastSaved = None, retryCount = 0 \<rparr>"

definition timers_0 :: Timers where
  "timers_0 = \<lparr> debounceTimer = None, retryTimers = [], loadRetryTimers = [] \<rparr>"

definition noon :: date where
  "noon = Date ''2024-01-05T12:00:00.000Z''"

text \<open>
  The bodies of \<open>forceSave\<close>, \<open>saveFunction\<close> and the retry callback do not call
  \<open>setState\<close>.
\<close>

lemma forceSave_state: "state (fst (forceSave now outcome h)) = state h"
  by (cases outcome) (simp_all add: forceSave_def)

lemma saveFunction_state:
  "state (saveFunction_begin h) = state h"
  "state (fst (saveFunction_settle now outcome data (h, timers))) = state h"
  by (simp_all add: saveFunction_begin_def saveFunction_settle_def Let_def)

lemma retryCallback_state: "state (retryCallback now outcome h) = state h"
  by (simp add: retryCallback_def)

lemma forceSave_failure:
  "outcome \<noteq> Saved \<Longrightarrow>
   forceSave now outcome h =
     (h\<lparr> error := Some ''Failed to save data manually'', isSaving := False \<rparr>, False)"
  by (cases outcome) (simp_all add: forceSave_def)

text \<open>
  A load puts what \<open>loadData\<close> resolved to in the place of the state, and clears
  \<open>error\<close>; so the effect comes to rest after at most two loads.
\<close>

lemma loadDataWithRetry_replaces:
  "state (fst (loadDataWithRetry closure_error attempt loadedData (h, timers))) = loadedData"
  "error (fst (loadDataWithRetry closure_error attempt loadedData (h, timers))) = None"
  by (simp_all add: loadDataWithRetry_def isStorageAvailable_def Let_def)

lemma load_effect_at_rest:
  "error (fst (load_effect error_before loads k (h, timers))) = error_before \<or>
   error (fst (load_effect error_before loads k (h, timers))) = None"
  by (auto simp: load_effect_def loadDataWithRetry_def isStorageAvailable_def Let_def
           split: prod.splits)

lemma load_effect_replaces:
  "error h \<noteq> error_before \<Longrightarrow>
   state (fst (load_effect error_before loads k (h, timers))) = loads k \<or>
   state (fst (load_effect error_before loads k (h, timers))) = loads (k + 1)"
  by (auto simp: load_effect_def loadDataWithRetry_def isStorageAvailable_def Let_def
           split: prod.splits)

text \<open>
  Claim C10 says that no save attempt changes the \<open>{tasks, developers}\<close> pair, and that
  a failed \<open>forceSave\<close> sets the error indicator only.  A failed \<open>forceSave\<close> calls
  \<open>setError\<close>; \<open>error\<close> changes, \<open>loadDataWithRetry\<close> is a new function, the load effect
  runs again and \<open>setState(loadedData)\<close> replaces the board by what \<open>loadData\<close> returns,
  the empty state when the store cannot be reached; the load also clears the error.  The
  same happens on the debounced path when the retries are used up.  On the example board:
\<close>

theorem failed_save_replaces_state:
  "state hook_0 = board \<and>
   snd (forceSave noon Refused hook_0) = False \<and>
   state (fst (save_step (ForceSave noon Refused (\<lambda>k. empty_state)) (hook_0, timers_0)))
     = empty_state \<and>
   error (fst (save_step (ForceSave noon Refused (\<lambda>k. empty_state)) (hook_0, timers_0)))
     = None \<and>
   state (fst (fold save_step [StateChanged, DebounceFires noon Threw (\<lambda>k. empty_state)]
                 (hook_0\<lparr> retryCount := 3 \<rparr>, timers_0)))
     = empty_state \<and>
   board \<noteq> empty_state"
  by (simp add: hook_0_def timers_0_def forceSave_def load_effect_def loadDataWithRetry_def
        isStorageAvailable_def saveFunction_begin_def saveFunction_settle_def maxRetries_def
        Let_def board_def empty_state_def)

section \<open>JavaScript values and JSON\<close>

text \<open>
  The persistence code works on untyped data: whatever \<open>JSON.parse\<close> returns is
  validated, walked and cast.  Its domain is therefore the JavaScript value, of which the
  code distinguishes primitives, dates, arrays and plain objects (an ordered list of
  properties).  An exception is a value of \<open>js_error\<close> on the left of a sum.
\<close>

datatype jsval =
    JUndefined
  | JNull
  | JBool bool
  | JNum real
  | JStr string
  | JDate date
  | JArr "jsval list"
  | JObj "(string \<times> jsval) list"

datatype js_error = SyntaxError | TypeError | Error string

text \<open>
  Truthiness, \<open>typeof\<close>, \<open>Array.isArray\<close>, \<open>instanceof Date\<close> and property access.
  Reading a property of \<open>undefined\<close> or \<open>null\<close> throws a \<open>TypeError\<close>; on any other
  value a missing property reads as \<open>undefined\<close>.
\<close>

fun truthy :: "jsval \<Rightarrow> bool" where
  "truthy JUndefined = False"
| "truthy JNull = False"
| "truthy (JBool b) = b"
| "truthy (JNum n) = (n \<noteq> 0)"
| "truthy (JStr s) = (s \<noteq> [])"
| "truthy (JDate d) = True"
| "truthy (JArr xs) = True"
| "truthy (JObj kvs) = True"

fun typeof :: "jsval \<Rightarrow> string" where
  "typeof JUndefined = ''undefined''"
| "typeof JNull = ''object''"
| "typeof (JBool b) = ''boolean''"
| "typeof (JNum n) = ''number''"
| "typeof (JStr s) = ''string''"
| "typeof (JDate d) = ''object''"
| "typeof (JArr xs) = ''object''"
| "typeof (JObj kvs) = ''object''"

fun isArray :: "jsval \<Rightarrow> bool" where
  "isArray (JArr xs) = True"
| "isArray v = False"

fun instanceof_Date :: "jsval \<Rightarrow> bool" where
  "instanceof_Date (JDate d) = True"
| "instanceof_Date v = False"

fun read_prop :: "jsval \<Rightarrow> string \<Rightarrow> jsval" where
  "read_prop (JObj kvs) k = (case map_of kvs k of None \<Rightarrow> JUndefined | Some v \<Rightarrow> v)"
| "read_prop (JArr xs) k = (if k = ''length'' then JNum (real (length xs)) else JUndefined)"
| "read_prop (JStr s) k = (if k = ''length'' then JNum (real (length s)) else JUndefined)"
| "read_prop v k = JUndefined"

definition get_prop :: "jsval \<Rightarrow> string \<Rightarrow> js_error + jsval" where
  "get_prop v k = (if v = JUndefined \<or> v = JNull then Inl TypeError else Inr (read_prop v k))"

text \<open>
  \<open>deserializeDates\<close> (the same function in apiStorage.ts and storage.ts).  An array is
  mapped.  A plain object (\<open>data.constructor === Object\<close>, which an own property named
  \<open>constructor\<close> defeats) is copied; a truthy string under the key \<open>createdAt\<close> or
  \<open>completedAt\<close> becomes a \<open>Date\<close>, and every property holding a truthy object that is
  not a \<open>Date\<close> is processed recursively.  Anything else is returned as it is.
\<close>

fun deserializeDates :: "jsval \<Rightarrow> jsval" where
  "deserializeDates (JArr xs) = JArr (map deserializeDates xs)"
| "deserializeDates (JObj kvs) =
     (if map_of kvs ''constructor'' = None
      then JObj (map (\<lambda>(key, v).
                        (key,
                         if (key = ''createdAt'' \<or> key = ''completedAt'') \<and> truthy v \<and>
                            typeof v = ''string''
                         then (case v of JStr s \<Rightarrow> JDate (Date s) | _ \<Rightarrow> v)
                         else if truthy v \<and> typeof v = ''object'' \<and> \<not> instanceof_Date v
                         then deserializeDates v
                         else v))
                     kvs)
      else JObj kvs)"
| "deserializeDates v = v"

text \<open>
  A JSON text is modelled by the value it denotes: \<open>Json v\<close> is a text that
  \<open>JSON.parse\<close> reads as \<open>v\<close>, and \<open>Malformed s\<close> is the text \<open>s\<close>, which \<open>JSON.parse\<close>
  rejects with a \<open>SyntaxError\<close> (the empty text among them).  \<open>JSON.stringify\<close> writes
  the text that denotes \<open>to_json v\<close>: a \<open>Date\<close> is written as its ISO string, a property
  whose value is \<open>undefined\<close> is left out, and \<open>undefined\<close> in an array is written as
  \<open>null\<close>.
\<close>

fun to_json :: "jsval \<Rightarrow> jsval" where
  "to_json (JDate d) = JStr (toISOString d)"
| "to_json (JArr xs) = JArr (map (\<lambda>x. if x = JUndefined then JNull else to_json x) xs)"
| "to_json (JObj kvs) =
     JObj (map (\<lambda>(key, v). (key, to_json v)) (filter (\<lambda>(key, v). v \<noteq> JUndefined) kvs))"
| "to_json v = v"

datatype json_text = Json jsval | Malformed string

definition JSON_stringify :: "jsval \<Rightarrow> json_text" where
  "JSON_stringify v = Json (to_json v)"

fun JSON_parse :: "json_text \<Rightarrow> js_error + jsval" where
  "JSON_parse (Json v) = Inr v"
| "JSON_parse (Malformed s) = Inl SyntaxError"

section \<open>The persistence gateway (lib/apiStorage.ts)\<close>

text \<open>The typed records as JavaScript values; an absent optional property has no entry.\<close>

fun status_string :: "TaskStatus \<Rightarrow> string" where
  "status_string Backlog = ''backlog''"
| "status_string Assigned = ''assigned''"
| "status_string Completed = ''completed''"

definition of_details :: "TaskCompletionDetails \<Rightarrow> jsval" where
  "of_details d =
     JObj [(''hoursSpent'', JNum (hoursSpent d)),
           (''gitCommit'', JStr (gitCommit d)),
           (''comments'', JStr (comments d))]"

definition of_task :: "Task \<Rightarrow> jsval" where
  "of_task task =
     JObj ([(''id'', JStr (task_id task)),
            (''name'', JStr (task_name task)),
            (''description'', JStr (description task)),
            (''points'', JNum (points task)),
            (''status'', JStr (status_string (status task)))] @
           (case assignedTo task of None \<Rightarrow> [] | Some a \<Rightarrow> [(''assignedTo'', JStr a)]) @
           [(''createdAt'', JDate (createdAt task))] @
           (case completedAt task of None \<Rightarrow> [] | Some d \<Rightarrow> [(''completedAt'', JDate d)]) @
           (case completionDetails task of
              None \<Rightarrow> []
            | Some d \<Rightarrow> [(''completionDetails'', of_details d)]))"

definition of_developer :: "Developer \<Rightarrow> jsval" where
  "of_developer dev =
     JObj [(''id'', JStr (dev_id dev)),
           (''name'', JStr (dev_name dev)),
           (''totalPoints'', JNum (totalPoints dev)),
           (''completedTasks'', JNum (completedTasks dev)),
           (''totalHours'', JNum (totalHours dev))]"

definition of_state :: "AppState \<Rightarrow> jsval" where
  "of_state s =
     JObj [(''tasks'', JArr (map of_task (tasks s))),
           (''developers'', JArr (map of_developer (developers s)))]"

definition storage_doc :: "AppState \<Rightarrow> jsval" where
  "storage_doc s =
     JObj [(''tasks'', JArr (map of_task (tasks s))),
           (''developers'', JArr (map of_developer (developers s))),
           (''version'', JStr ''1.0'')]"

text \<open>\<open>exportData\<close>; the values it serialises give \<open>JSON.stringify\<close> no reason to throw.\<close>

definition exportData :: "AppState \<Rightarrow> js_error + json_text" where
  "exportData s =
     (let storageData =
            JObj [(''tasks'', JArr (map of_task (tasks s))),
                  (''developers'', JArr (map of_developer (developers s))),
                  (''version'', JStr ''1.0'')]
      in Inr (JSON_stringify storageData))"

text \<open>
  \<open>importData\<close>: every exception of the \<open>try\<close> block, whether from \<open>JSON.parse\<close> or the
  failed validation, is replaced by one error.
\<close>

definition validateStorageData :: "jsval \<Rightarrow> bool" where
  "validateStorageData data =
     (if \<not> truthy data \<or> typeof data \<noteq> ''object'' then False
      else if \<not> isArray (read_prop data ''tasks'') \<or> \<not> isArray (read_prop data ''developers'')
      then False
      else True)"

definition or_else :: "jsval \<Rightarrow> jsval \<Rightarrow> jsval" where
  "or_else a b = (if truthy a then a else b)"

definition importData_try :: "json_text \<Rightarrow> js_error + jsval" where
  "importData_try jsonString =
     (case JSON_parse jsonString of
        Inl e \<Rightarrow> Inl e
      | Inr parsed \<Rightarrow>
          if \<not> validateStorageData parsed then Inl (Error ''Invalid data format'')
          else (let deserializedData = deserializeDates parsed
                in case get_prop deserializedData ''tasks'' of
                     Inl e \<Rightarrow> Inl e
                   | Inr ts \<Rightarrow>
                       (case get_prop deserializedData ''developers'' of
                          Inl e \<Rightarrow> Inl e
                        | Inr ds \<Rightarrow>
                            Inr (JObj [(''tasks'', or_else ts (JArr [])),
                                       (''developers'', or_else ds (JArr []))]))))"

definition importData :: "json_text \<Rightarrow> js_error + jsval" where
  "importData jsonString =
     (case importData_try jsonString of
        Inl e \<Rightarrow> Inl (Error ''Failed to import data: Invalid JSON format'')
      | Inr v \<Rightarrow> Inr v)"

text \<open>
  \<open>loadData\<close>.  The request either rejects or yields a response with its \<open>ok\<close> flag, its
  status code and its body.  The log line inside the \<open>try\<close> block reads
  \<open>deserializedData.tasks.length\<close> and \<open>deserializedData.developers.length\<close>, which
  throws when the data or one of the two properties is \<open>undefined\<close> or \<open>null\<close>.  The
  \<open>catch\<close> block returns the empty state.
\<close>

definition DEFAULT_STATE :: jsval where
  "DEFAULT_STATE = JObj [(''tasks'', JArr []), (''developers'', JArr [])]"

datatype fetch_outcome = FetchRejects | Response bool nat json_text

definition loadData_try :: "fetch_outcome \<Rightarrow> js_error + jsval" where
  "loadData_try outcome =
     (case outcome of
        FetchRejects \<Rightarrow> Inl TypeError
      | Response ok status_code body \<Rightarrow>
          if \<not> ok then Inl (Error (''HTTP error! status: '' @ string_of_nat status_code))
          else (case JSON_parse body of
                  Inl e \<Rightarrow> Inl e
                | Inr data \<Rightarrow>
                    (let deserializedData = deserializeDates data
                     in case get_prop deserializedData ''tasks'' of
                          Inl e \<Rightarrow> Inl e
                        | Inr ts \<Rightarrow>
                            (case get_prop ts ''length'' of
                               Inl e \<Rightarrow> Inl e
                             | Inr n \<Rightarrow>
                                 (case get_prop deserializedData ''developers'' of
                                    Inl e \<Rightarrow> Inl e
                                  | Inr ds \<Rightarrow>
                                      (case get_prop ds ''length'' of
                                         Inl e \<Rightarrow> Inl e
                                       | Inr m \<Rightarrow> Inr deserializedData))))))"

definition loadData :: "fetch_outcome \<Rightarrow> js_error + jsval" where
  "loadData outcome =
     (case loadData_try outcome of
        Inl e \<Rightarrow> Inr (JObj [(''tasks'', JArr []), (''developers'', JArr [])])
      | Inr deserializedData \<Rightarrow> Inr deserializedData)"

section \<open>The local-storage variant (lib/storage.ts)\<close>

text \<open>
  \<open>localStorage.getItem\<close> throws, or returns \<open>null\<close> or the stored text.  The backups
  that \<open>loadData\<close> writes on the way are guarded by their own \<open>try\<close> blocks and do not
  change what it returns; they are left out.  \<open>migrateData\<close> writes a \<open>version\<close> into
  the parsed value when it has none, which throws on \<open>null\<close> and, the module being
  strict code, on a primitive.
\<close>

datatype getItem_outcome = GetItemThrows | Item "json_text option"

fun obj_set :: "(string \<times> jsval) list \<Rightarrow> string \<Rightarrow> jsval \<Rightarrow> (string \<times> jsval) list" where
  "obj_set [] k v = [(k, v)]"
| "obj_set ((k', v') # kvs) k v = (if k' = k then (k, v) # kvs else (k', v') # obj_set kvs k v)"

fun migrateData :: "jsval \<Rightarrow> js_error + jsval" where
  "migrateData JUndefined = Inl TypeError"
| "migrateData JNull = Inl TypeError"
| "migrateData (JObj kvs) =
     (if \<not> truthy (read_prop (JObj kvs) ''version'')
      then Inr (JObj (obj_set kvs ''version'' (JStr ''1.0'')))
      else Inr (JObj kvs))"
| "migrateData (JArr xs) = Inr (JArr xs)"
| "migrateData (JDate d) = Inr (JDate d)"
| "migrateData v = Inl TypeError"

definition status_known :: "jsval \<Rightarrow> bool" where
  "status_known v = (v \<in> set [JStr ''backlog'', JStr ''assigned'', JStr ''completed''])"

fun tasks_wellformed :: "jsval list \<Rightarrow> js_error + bool" where
  "tasks_wellformed [] = Inr True"
| "tasks_wellformed (task # rest) =
     (if task = JUndefined \<or> task = JNull then Inl TypeError
      else if \<not> truthy (read_prop task ''id'') \<or> \<not> truthy (read_prop task ''name'') \<or>
              typeof (read_prop task ''points'') \<noteq> ''number''
      then Inr False
      else if \<not> status_known (read_prop task ''status'') then Inr False
      else tasks_wellformed rest)"

fun developers_wellformed :: "jsval list \<Rightarrow> js_error + bool" where
  "developers_wellformed [] = Inr True"
| "developers_wellformed (dev # rest) =
     (if dev = JUndefined \<or> dev = JNull then Inl TypeError
      else if \<not> truthy (read_prop dev ''id'') \<or> \<not> truthy (read_prop dev ''name'') \<or>
              typeof (read_prop dev ''totalPoints'') \<noteq> ''number''
      then Inr False
      else developers_wellformed rest)"

definition validateStorageData_local :: "jsval \<Rightarrow> js_error + bool" where
  "validateStorageData_local data =
     (if \<not> truthy data \<or> typeof data \<noteq> ''object'' then Inr False
      else (case (read_prop data ''tasks'', read_prop data ''developers'') of
              (JArr ts, JArr ds) \<Rightarrow>
                (case tasks_wellformed ts of
                   Inl e \<Rightarrow> Inl e
                 | Inr False \<Rightarrow> Inr False
                 | Inr True \<Rightarrow> developers_wellformed ds)
            | _ \<Rightarrow> Inr False))"

definition recoverable_task :: "jsval \<Rightarrow> bool" where
  "recoverable_task taskObj =
     (truthy taskObj \<and>
      typeof (read_prop taskObj ''id'') = ''string'' \<and>
      typeof (read_prop taskObj ''name'') = ''string'' \<and>
      typeof (read_prop taskObj ''points'') = ''number'' \<and>
      status_known (read_prop taskObj ''status''))"

definition recoverable_developer :: "jsval \<Rightarrow> bool" where
  "recoverable_developer devObj =
     (truthy devObj \<and>
      typeof (read_prop devObj ''id'') = ''string'' \<and>
      typeof (read_prop devObj ''name'') = ''string'' \<and>
      typeof (read_prop devObj ''totalPoints'') = ''number'')"

definition recoverPartialData :: "jsval \<Rightarrow> jsval option" where
  "recoverPartialData data =
     (if data = JUndefined \<or> data = JNull then None
      else (let recovered_tasks =
                  (case read_prop data ''tasks'' of
                     JArr ts \<Rightarrow> filter recoverable_task ts
                   | _ \<Rightarrow> []);
                recovered_developers =
                  (case read_prop data ''developers'' of
                     JArr ds \<Rightarrow> filter recoverable_developer ds
                   | _ \<Rightarrow> [])
            in if length recovered_tasks > 0 \<or> length recovered_developers > 0
               then Some (JObj [(''tasks'', JArr recovered_tasks),
                                (''developers'', JArr recovered_developers)])
               else None))"

definition loadData_local_try :: "getItem_outcome \<Rightarrow> js_error + jsval" where
  "loadData_local_try outcome =
     (case outcome of
        GetItemThrows \<Rightarrow> Inl (Error ''SecurityError'')
      | Item None \<Rightarrow> Inr DEFAULT_STATE
      | Item (Some stored) \<Rightarrow>
          if stored = Malformed [] then Inr DEFAULT_STATE
          else (case JSON_parse stored of
                  Inl e \<Rightarrow> Inl e
                | Inr parsed \<Rightarrow>
                    (case migrateData parsed of
                       Inl e \<Rightarrow> Inl e
                     | Inr migratedData \<Rightarrow>
                         (case validateStorageData_local migratedData of
                            Inl e \<Rightarrow> Inl e
                          | Inr False \<Rightarrow>
                              (case recoverPartialData migratedData of
                                 Some recoveredData \<Rightarrow> Inr recoveredData
                               | None \<Rightarrow> Inr DEFAULT_STATE)
                          | Inr True \<Rightarrow>
                              (let deserializedData = deserializeDates migratedData
                               in Inr (JObj [(''tasks'',
                                               or_else (read_prop deserializedData ''tasks'') (JArr [])),
                                             (''developers'',
                                               or_else (read_prop deserializedData ''developers'') (JArr []))]))))))"

definition loadData_local :: "getItem_outcome \<Rightarrow> js_error + jsval" where
  "loadData_local outcome =
     (case loadData_local_try outcome of
        Inl e \<Rightarrow> Inr DEFAULT_STATE
      | Inr v \<Rightarrow> Inr v)"

section \<open>Export and import\<close>

text \<open>
  A state is valid when its dates are: the ISO string of a valid \<open>Date\<close> is never
  empty.
\<close>

definition valid_task :: "Task \<Rightarrow> bool" where
  "valid_task task =
     (toISOString (createdAt task) \<noteq> [] \<and>
      (case completedAt task of None \<Rightarrow> True | Some d \<Rightarrow> toISOString d \<noteq> []))"

definition valid_state :: "AppState \<Rightarrow> bool" where
  "valid_state s = list_all valid_task (tasks s)"

lemma roundtrip_details: "deserializeDates (to_json (of_details d)) = of_details d"
  by (simp add: of_details_def)

lemma roundtrip_developer: "deserializeDates (to_json (of_developer dev)) = of_developer dev"
  by (simp add: of_developer_def)

lemma roundtrip_task:
  assumes "valid_task task"
  shows "deserializeDates (to_json (of_task task)) = of_task task"
proof -
  obtain c where c: "createdAt task = Date c" by (cases "createdAt task")
  with assms have cne: "c \<noteq> []" by (simp add: valid_task_def)
  show ?thesis
  proof (cases "completedAt task")
    case None
    then show ?thesis
      using c cne by (cases "assignedTo task"; cases "completionDetails task")
        (simp_all add: of_task_def of_details_def)
  next
    case (Some d)
    obtain e where e: "d = Date e" by (cases d)
    with assms Some have "e \<noteq> []" by (simp add: valid_task_def)
    then show ?thesis
      using c cne Some e by (cases "assignedTo task"; cases "completionDetails task")
        (simp_all add: of_task_def of_details_def)
  qed
qed

lemma not_undefined: "of_task task \<noteq> JUndefined" "of_developer dev \<noteq> JUndefined"
  by (simp_all add: of_task_def of_developer_def)

lemma roundtrip_tasks:
  "list_all valid_task ts \<Longrightarrow>
   map deserializeDates (map (\<lambda>x. if x = JUndefined then JNull else to_json x) (map of_task ts))
     = map of_task ts"
  by (induction ts) (simp_all add: not_undefined roundtrip_task)

lemma roundtrip_developers:
  "map deserializeDates (map (\<lambda>x. if x = JUndefined then JNull else to_json x) (map of_developer ds))
     = map of_developer ds"
  by (induction ds) (simp_all add: not_undefined roundtrip_developer)

lemma valid_board: "valid_state board"
  by (simp add: valid_state_def valid_task_def fixture_defs)

text \<open>
  Claim C6.  For every valid state \<open>s\<close>, \<open>exportData s\<close> returns a text, and
  \<open>importData\<close> of that text does not throw and returns the \<open>{tasks, developers}\<close> pair
  of \<open>s\<close>, each \<open>Date\<close> rebuilt from the ISO string written for it.
\<close>

theorem import_export_roundtrip:
  assumes "valid_state s"
  shows "case exportData s of
           Inl e \<Rightarrow> False
         | Inr text \<Rightarrow> importData text = Inr (of_state s)"
proof -
  let ?doc = "JObj [(''tasks'', JArr (map of_task (tasks s))),
                    (''developers'', JArr (map of_developer (developers s))),
                    (''version'', JStr ''1.0'')]"
  have ex: "exportData s = Inr (Json (to_json ?doc))"
    by (simp add: exportData_def JSON_stringify_def)
  have v: "validateStorageData (to_json ?doc)"
    by (simp add: validateStorageData_def)
  have d: "deserializeDates (to_json ?doc) = ?doc"
    using assms roundtrip_tasks [of "tasks s"] roundtrip_developers [of "developers s"]
    by (simp add: valid_state_def)
  have "importData_try (Json (to_json ?doc)) = Inr (of_state s)"
    unfolding importData_try_def using v
    by (simp add: d Let_def get_prop_def or_else_def of_state_def del: to_json.simps)
  then have "importData (Json (to_json ?doc)) = Inr (of_state s)"
    by (simp add: importData_def)
  with ex show ?thesis by simp
qed

theorem import_export_roundtrip_witness:
  "valid_state board \<and>
   exportData board = Inr (JSON_stringify (storage_doc board)) \<and>
   importData (JSON_stringify (storage_doc board)) = Inr (of_state board)"
proof -
  have e: "exportData board = Inr (JSON_stringify (storage_doc board))"
    by (simp add: exportData_def storage_doc_def)
  show ?thesis
    using valid_board import_export_roundtrip [of board] e by simp
qed

text \<open>What \<open>importData\<close> refuses: a text that is not JSON, and a document without \<open>developers\<close>.\<close>

lemma importData_rejects_examples:
  "importData (Malformed ''{invalid'') = Inl (Error ''Failed to import data: Invalid JSON format'')"
  "importData (Json (JObj [(''tasks'', JArr [])])) = Inl (Error ''Failed to import data: Invalid JSON format'')"
  by (simp_all add: importData_def importData_try_def validateStorageData_def)

section \<open>Loading\<close>

text \<open>A successful load returns the stored board.\<close>

lemma deserialize_board:
  "deserializeDates (to_json (of_state board)) = of_state board"
  using valid_board roundtrip_tasks [of "tasks board"] roundtrip_developers [of "developers board"]
  by (simp add: of_state_def valid_state_def)

lemma loadData_success_example:
  "loadData (Response True 200 (Json (to_json (of_state board)))) = Inr (of_state board)"
  unfolding loadData_def loadData_try_def
  by (simp add: deserialize_board Let_def del: to_json.simps)
     (simp add: of_state_def get_prop_def)

lemma loadData_local_success_example:
  "loadData_local (Item (Some (JSON_stringify (storage_doc board)))) = Inr (of_state board)"
proof -
  have m: "migrateData (to_json (storage_doc board)) = Inr (to_json (storage_doc board))"
    by (simp add: storage_doc_def)
  have v: "validateStorageData_local (to_json (storage_doc board)) = Inr True"
    by (simp add: validateStorageData_local_def storage_doc_def of_task_def of_developer_def
          status_known_def fixture_defs)
  have d: "deserializeDates (to_json (storage_doc board)) = storage_doc board"
    using valid_board roundtrip_tasks [of "tasks board"] roundtrip_developers [of "developers board"]
    by (simp add: storage_doc_def valid_state_def)
  show ?thesis
    unfolding loadData_local_def loadData_local_try_def JSON_stringify_def
    by (simp add: m v d Let_def del: to_json.simps)
       (simp add: storage_doc_def of_state_def or_else_def)
qed

text \<open>
  A stored document with a malformed task fails the validation of storage.ts, and the
  well-formed developer is recovered.
\<close>

lemma loadData_local_recovers_example:
  "loadData_local (Item (Some (Json (JObj [(''tasks'', JArr [JNum 1]),
      (''developers'', JArr [JObj [(''id'', JStr ''dev-1''), (''name'', JStr ''Dev One''),
                                   (''totalPoints'', JNum 10)]])])))) =
   Inr (JObj [(''tasks'', JArr []),
      (''developers'', JArr [JObj [(''id'', JStr ''dev-1''), (''name'', JStr ''Dev One''),
                                   (''totalPoints'', JNum 10)]])])"
  by (simp add: loadData_local_def loadData_local_try_def validateStorageData_local_def
        recoverPartialData_def recoverable_task_def recoverable_developer_def)

text \<open>The empty state that \<open>loadData\<close> falls back to is the state without tasks and developers.\<close>

lemma DEFAULT_STATE_empty: "DEFAULT_STATE = of_state empty_state"
  by (simp add: DEFAULT_STATE_def of_state_def empty_state_def)

text \<open>
  Claim C7.  \<open>loadData\<close> always returns a value.  It returns the empty state when the
  request rejects, when the response is not OK, and when the body is not JSON, such as
  \<open>{invalid\<close>.  The same holds for the \<open>loadData\<close> of storage.ts when \<open>getItem\<close>
  throws and when the stored text is not JSON.
\<close>

theorem loadData_fails_soft:
  "(\<exists>v. loadData outcome = Inr v) \<and>
   loadData FetchRejects = Inr DEFAULT_STATE \<and>
   (\<not> ok \<longrightarrow> loadData (Response ok status_code body) = Inr DEFAULT_STATE) \<and>
   (\<forall>e. JSON_parse body = Inl e \<longrightarrow> loadData (Response ok status_code body) = Inr DEFAULT_STATE) \<and>
   loadData (Response True 200 (Malformed ''{invalid'')) = Inr DEFAULT_STATE \<and>
   (\<exists>v. loadData_local stored = Inr v) \<and>
   loadData_local GetItemThrows = Inr DEFAULT_STATE \<and>
   (\<forall>e. JSON_parse text = Inl e \<longrightarrow> loadData_local (Item (Some text)) = Inr DEFAULT_STATE) \<and>
   loadData_local (Item (Some (Malformed ''{invalid''))) = Inr DEFAULT_STATE"
proof -
  have a: "\<exists>v. loadData outcome = Inr v"
    by (simp add: loadData_def split: sum.splits)
  have b: "\<exists>v. loadData_local stored = Inr v"
    by (simp add: loadData_local_def split: sum.splits)
  have c: "JSON_parse body = Inl e \<longrightarrow> loadData (Response ok status_code body) = Inr DEFAULT_STATE" for e
    by (simp add: loadData_def loadData_try_def DEFAULT_STATE_def)
  have d: "JSON_parse text = Inl e \<longrightarrow> loadData_local (Item (Some text)) = Inr DEFAULT_STATE" for e
    by (simp add: loadData_local_def loadData_local_try_def)
  show ?thesis
    using a b c d
    by (simp add: loadData_def loadData_try_def DEFAULT_STATE_def loadData_local_def
          loadData_local_try_def)
qed

theorem loadData_fails_soft_witness:
  "JSON_parse (Malformed ''{invalid'') = Inl SyntaxError \<and>
   loadData (Response False 500 (Json JNull)) = Inr DEFAULT_STATE \<and>
   loadData (Response True 200 (Malformed ''{invalid'')) = Inr DEFAULT_STATE \<and>
   loadData_local (Item (Some (Malformed ''{invalid''))) = Inr DEFAULT_STATE"
  using loadData_fails_soft [of FetchRejects False 500 "Json JNull" GetItemThrows "Malformed ''{invalid''"]
    loadData_fails_soft [of FetchRejects True 200 "Malformed ''{invalid''" GetItemThrows "Malformed ''{invalid''"]
  by simp

end
